theory Spec2Isabelle
  imports Main
begin

section \<open>InternalTexture: the data model\<close>

text \<open>
  The development embeds \<^verbatim>\<open>packages/dev/core/src/Materials/Textures/internalTexture.ts\<close>.

  Objects are addressed: an \<open>InternalTexture\<close> lives in a store (\<open>heap\<close>) and is
  referred to by its address, so that \<open>this\<close> and \<open>target\<close> may alias, as they may in
  the source. A JavaScript reference always denotes an object, hence the store is total.
  Identifiers cannot start with an underscore here, so the leading underscore of the
  source's private names is dropped: \<open>_references\<close> is \<open>references\<close>, \<open>_swapAndDie\<close> is
  \<open>swapAndDie\<close>, and so on; \<open>_size\<close> is \<open>size'\<close>. Values that the class only stores
  and passes on (buffers, hardware textures, textures of the material layer, spherical
  polynomials, observers, callbacks, promises) are opaque references. Numbers that are
  stored, passed on, incremented or decremented are integers: the dimensions (declared
  \<open>int\<close>), the codes, the reference count and the unique id; the two LOD generation
  numbers are only passed on. The one number that the class computes by a
  multiplication, the cached size, is a double (\<open>number\<close> below). There is one engine.
\<close>

type_synonym addr = nat
type_synonym ref = nat

datatype InternalTextureSource =
    Unknown
  | Url
  | Temp
  | Raw
  | Dynamic
  | RenderTarget
  | MultiRenderTarget
  | Cube
  | CubeRaw
  | CubePrefiltered
  | Raw3D
  | Raw2DArray
  | DepthStencil
  | CubeRawRGBD
  | Depth

text \<open>
  JavaScript's \<open>*\<close> on numbers with integer values. A number is an IEEE 754 double:
  an integer below \<open>2^53\<close> in absolute value is held exactly; the exact product of two
  integers is rounded to 53 significant bits, to the nearest double and to the even one
  in a tie, and to an infinity when the rounded value reaches \<open>2^1024\<close>. \<open>bits a\<close> is the
  length of \<open>a\<close> in binary, so that \<open>2 ^ (bits a - 53)\<close> is the distance between the
  doubles around \<open>a\<close>. The two zeros are one value here.
\<close>

datatype number = Finite int | PosInfinity | NegInfinity | NaN






text \<open>
  The fields of the parent class \<open>TextureSampler\<close> that \<open>InternalTexture\<close> reads or
  writes.
\<close>

record TextureSampler =
  samplingMode :: int
  cachedWrapU :: "int option"
  cachedWrapV :: "int option"
  cachedWrapR :: "int option"
  cachedAnisotropicFilteringLevel :: "int option"

record InternalTexture = TextureSampler +
  isReady :: bool
  isCube :: bool
  url :: string
  originalUrl :: "string option"
  generateMipMaps :: bool
  type :: int
  format :: int
  onLoadedObservable :: "ref list"
  onErrorObservable :: "ref list"
  onRebuildCallback :: "ref option"
  width :: int
  height :: int
  depth :: int
  baseWidth :: int
  baseHeight :: int
  baseDepth :: int
  invertY :: bool
  source :: InternalTextureSource
  buffer :: "ref option"
  bufferView :: "ref option"
  bufferViewArray :: "ref option"
  size' :: number
  extension :: string
  files :: "string list option"
  cachedCoordinatesMode :: "int option"
  compression :: "string option"
  sphericalPolynomial :: "ref option"
  lodGenerationScale :: int
  lodGenerationOffset :: int
  useSRGBBuffer :: bool
  lodTextureHigh :: "ref option"
  lodTextureMid :: "ref option"
  lodTextureLow :: "ref option"
  isRGBD :: bool
  irradianceTexture :: "ref option"
  hardwareTexture :: "ref option"
  references :: int
  uniqueId :: int

section \<open>The engine, seen from this class\<close>

text \<open>
  \<open>ThinEngine\<close>, \<open>HardwareTextureWrapper\<close>, \<open>BaseTexture\<close> and the custom rebuild
  callback are collaborators whose code is elsewhere. A call to one of them is
  recorded, with the arguments the source passes, in the order the source makes it.
\<close>

datatype call =
    CreateHardwareTexture
  | UpdateTextureDimensions addr int int int
  | OnRebuildCallback ref addr
  | PromiseThen ref
  | CreateTexture string bool bool int "ref option" int string bool
  | CreateRawTexture "ref option" int int int bool bool int "string option" int bool
  | CreateRawTexture3D "ref option" int int int int bool bool int "string option" int
  | CreateRawTexture2DArray "ref option" int int int int bool bool int "string option" int
  | CreateDynamicTexture int int bool int
  | GetRenderingCanvas
  | UpdateDynamicTexture addr bool
  | CreateCubeTexture string "string list option" bool int string bool
  | CreateRawCubeTexture "ref option" int int int bool bool int "string option"
  | CreatePrefilteredCubeTexture string int int int string
  | SetUsage ref InternalTextureSource bool bool int int
  | BaseTextureDispose ref
  | ReleaseTexture addr

text \<open>
  The state of the program: the store of descriptors, the number of addresses in use,
  the static \<open>InternalTexture._Counter\<close>, the array that
  \<open>getLoadedTexturesCache()\<close> returns (shared and mutated in place), and the calls made
  so far.
\<close>

record world =
  heap :: "addr \<Rightarrow> InternalTexture"
  allocated :: addr
  Counter :: int
  loadedTexturesCache :: "addr list"
  calls :: "call list"

text \<open>What \<open>onRebuildCallback\<close> returns: \<open>proxy\<close>, \<open>isReady\<close>, \<open>isAsync\<close>.\<close>

datatype proxy = ProxyTexture addr | ProxyPromise ref

record RebuildData =
  data_proxy :: "proxy option"
  data_isReady :: bool
  data_isAsync :: bool

text \<open>
  A creation call that takes an \<open>onLoad\<close> callback either returns with the callback
  still to come, or has already invoked it when it returns (the source's comment in the
  \<open>Url\<close> branch: "it could be fully synchronous"), with the argument given.
\<close>

datatype completion = Deferred | Immediate "addr option"

text \<open>
  The answers of the collaborators. Each may depend on the whole state at the moment of
  the call. What they write themselves is outside this class and is not modelled: the
  results below are about what the code of \<open>internalTexture.ts\<close> reads and writes.
\<close>

record device =
  hardwareTextureCreated :: "world \<Rightarrow> ref"
  dimensionsAccepted :: "world \<Rightarrow> call \<Rightarrow> bool"
  rebuildData :: "world \<Rightarrow> ref \<Rightarrow> addr \<Rightarrow> RebuildData"
  created :: "world \<Rightarrow> call \<Rightarrow> addr"
  completion :: "world \<Rightarrow> call \<Rightarrow> completion"

datatype error = DeviceResizeError | TypeError

text \<open>
  How a method ends: it returns, it returns having left a callback registered, or an
  exception leaves it. The state reached is returned in each case.
\<close>

datatype callback =
    UrlLoaded addr
  | CubeLoaded addr addr
  | PrefilteredLoaded addr
  | SwapAndSetIsReady addr bool

datatype outcome = Done | Pending callback | Threw error

definition upd :: "world \<Rightarrow> addr \<Rightarrow> (InternalTexture \<Rightarrow> InternalTexture) \<Rightarrow> world" where
  "upd w a f = w\<lparr>heap := (heap w)(a := f (heap w a))\<rparr>"

definition issue :: "world \<Rightarrow> call \<Rightarrow> world" where
  "issue w c = w\<lparr>calls := calls w @ [c]\<rparr>"

section \<open>Construction, reference counting, resizing\<close>

text \<open>
  \<open>new InternalTexture(engine, source, delayAllocation)\<close>. The parent constructor's
  result is the argument \<open>sampler\<close>. The fields take their declared initial values
  (\<open>declared\<close>); \<open>_originalUrl\<close> is declared without one. The unique id is the
  static counter, which is then incremented.
\<close>

definition declared :: "TextureSampler \<Rightarrow> InternalTextureSource \<Rightarrow> int \<Rightarrow> InternalTexture" where
  "declared sampler src uid =
     \<lparr> samplingMode = samplingMode sampler,
       cachedWrapU = cachedWrapU sampler,
       cachedWrapV = cachedWrapV sampler,
       cachedWrapR = cachedWrapR sampler,
       cachedAnisotropicFilteringLevel = cachedAnisotropicFilteringLevel sampler,
       isReady = False, isCube = False, url = [], originalUrl = None,
       generateMipMaps = False, type = - 1, format = - 1,
       onLoadedObservable = [], onErrorObservable = [], onRebuildCallback = None,
       width = 0, height = 0, depth = 0,
       baseWidth = 0, baseHeight = 0, baseDepth = 0,
       invertY = False, source = src,
       buffer = None, bufferView = None, bufferViewArray = None,
       size' = Finite 0, extension = [], files = None,
       cachedCoordinatesMode = None, compression = None,
       sphericalPolynomial = None,
       lodGenerationScale = 0, lodGenerationOffset = 0, useSRGBBuffer = False,
       lodTextureHigh = None, lodTextureMid = None, lodTextureLow = None,
       isRGBD = False, irradianceTexture = None, hardwareTexture = None,
       references = 1, uniqueId = uid \<rparr>"

definition InternalTexture_new ::
  "device \<Rightarrow> world \<Rightarrow> TextureSampler \<Rightarrow> InternalTextureSource \<Rightarrow> bool \<Rightarrow> addr \<times> world" where
  "InternalTexture_new dev w sampler src delayAllocation =
    (let this = allocated w;
         w1 = w\<lparr>heap := (heap w)(this := declared sampler src (Counter w)),
                allocated := Suc this, Counter := Counter w + 1\<rparr>
     in if \<not> delayAllocation
        then (this, upd (issue w1 CreateHardwareTexture) this
                      (\<lambda>t. t\<lparr>hardwareTexture := Some (hardwareTextureCreated dev w1)\<rparr>))
        else (this, w1))"

definition incrementReferences :: "world \<Rightarrow> addr \<Rightarrow> world" where
  "incrementReferences w this = upd w this (\<lambda>t. t\<lparr>references := references t + 1\<rparr>)"


text \<open>
  \<open>dispose()\<close>: the two observables are cleared whatever the count; the engine is asked
  to release the texture when the count is exactly zero after the decrement.
\<close>

definition dispose :: "world \<Rightarrow> addr \<Rightarrow> world" where
  "dispose w this =
    (let w1 = upd w this (\<lambda>t. t\<lparr>references := references t - 1\<rparr>);
         w2 = upd w1 this (\<lambda>t. t\<lparr>onLoadedObservable := []\<rparr>);
         w3 = upd w2 this (\<lambda>t. t\<lparr>onErrorObservable := []\<rparr>)
     in if references (heap w3 this) = 0
        then upd (issue w3 (ReleaseTexture this)) this (\<lambda>t. t\<lparr>hardwareTexture := None\<rparr>)
        else w3)"

section \<open>Transfer: \<open>_swapAndDie\<close>\<close>

text \<open>
  \<open>Array.prototype.indexOf\<close> (the first position holding the element, \<open>-1\<close> when there
  is none), \<open>splice(index, 1)\<close> (a negative index counts from the end, an index past
  the end removes nothing) and \<open>push\<close>.
\<close>

fun indexOf :: "'a list \<Rightarrow> 'a \<Rightarrow> int" where
  "indexOf [] x = - 1"
| "indexOf (y # ys) x =
     (if y = x then 0 else (let i = indexOf ys x in if i = - 1 then - 1 else i + 1))"

definition splice1 :: "'a list \<Rightarrow> int \<Rightarrow> 'a list" where
  "splice1 xs i =
    (let n = int (length xs);
         start = (if i < 0 then max (n + i) 0 else min i n)
     in take (nat start) xs @ drop (nat start + 1) xs)"

definition push :: "'a list \<Rightarrow> 'a \<Rightarrow> 'a list" where
  "push xs x = xs @ [x]"

text \<open>
  \<open>this._swapAndDie(target, swapAll = true)\<close>, statement by statement. Every read goes
  to the store as it is at that statement, so the model also covers \<open>this\<close> and
  \<open>target\<close> being one object.
\<close>

text \<open>\<open>this._hardwareTexture?.setUsage(target._source, ...)\<close>\<close>

definition swap_setUsage :: "world \<Rightarrow> addr \<Rightarrow> addr \<Rightarrow> world" where
  "swap_setUsage w this target =
    (case hardwareTexture (heap w this) of
       None \<Rightarrow> w
     | Some h \<Rightarrow> issue w (SetUsage h (source (heap w target))
                            (generateMipMaps (heap w this)) (isCube (heap w this))
                            (width (heap w this)) (height (heap w this))))"

text \<open>\<open>target._hardwareTexture = this._hardwareTexture\<close>\<close>

definition swap_hardwareTexture :: "world \<Rightarrow> addr \<Rightarrow> addr \<Rightarrow> world" where
  "swap_hardwareTexture w this target =
     upd w target (\<lambda>t. t\<lparr>hardwareTexture := hardwareTexture (heap w this)\<rparr>)"

text \<open>\<open>target._isRGBD = this._isRGBD\<close>\<close>

definition swap_isRGBD :: "world \<Rightarrow> addr \<Rightarrow> addr \<Rightarrow> world" where
  "swap_isRGBD w this target = upd w target (\<lambda>t. t\<lparr>isRGBD := isRGBD (heap w this)\<rparr>)"

text \<open>
  The four blocks of the shape
  \<open>if (this.x) { if (target.x) { target.x.dispose(); } target.x = this.x; }\<close>
\<close>

definition swap_lodTextureHigh :: "world \<Rightarrow> addr \<Rightarrow> addr \<Rightarrow> world" where
  "swap_lodTextureHigh w this target =
    (case lodTextureHigh (heap w this) of
       None \<Rightarrow> w
     | Some l \<Rightarrow>
         (let v = (case lodTextureHigh (heap w target) of
                     None \<Rightarrow> w
                   | Some old \<Rightarrow> issue w (BaseTextureDispose old))
          in upd v target (\<lambda>t. t\<lparr>lodTextureHigh := lodTextureHigh (heap v this)\<rparr>)))"

definition swap_lodTextureMid :: "world \<Rightarrow> addr \<Rightarrow> addr \<Rightarrow> world" where
  "swap_lodTextureMid w this target =
    (case lodTextureMid (heap w this) of
       None \<Rightarrow> w
     | Some l \<Rightarrow>
         (let v = (case lodTextureMid (heap w target) of
                     None \<Rightarrow> w
                   | Some old \<Rightarrow> issue w (BaseTextureDispose old))
          in upd v target (\<lambda>t. t\<lparr>lodTextureMid := lodTextureMid (heap v this)\<rparr>)))"

definition swap_lodTextureLow :: "world \<Rightarrow> addr \<Rightarrow> addr \<Rightarrow> world" where
  "swap_lodTextureLow w this target =
    (case lodTextureLow (heap w this) of
       None \<Rightarrow> w
     | Some l \<Rightarrow>
         (let v = (case lodTextureLow (heap w target) of
                     None \<Rightarrow> w
                   | Some old \<Rightarrow> issue w (BaseTextureDispose old))
          in upd v target (\<lambda>t. t\<lparr>lodTextureLow := lodTextureLow (heap v this)\<rparr>)))"

definition swap_irradianceTexture :: "world \<Rightarrow> addr \<Rightarrow> addr \<Rightarrow> world" where
  "swap_irradianceTexture w this target =
    (case irradianceTexture (heap w this) of
       None \<Rightarrow> w
     | Some l \<Rightarrow>
         (let v = (case irradianceTexture (heap w target) of
                     None \<Rightarrow> w
                   | Some old \<Rightarrow> issue w (BaseTextureDispose old))
          in upd v target (\<lambda>t. t\<lparr>irradianceTexture := irradianceTexture (heap v this)\<rparr>)))"

text \<open>
  The end of the method, on the array that \<open>getLoadedTexturesCache()\<close> returns:
  \<open>indexOf(this)\<close>, \<open>splice\<close>, \<open>indexOf(target)\<close>, \<open>push\<close>.
\<close>

definition swap_cache :: "world \<Rightarrow> addr \<Rightarrow> addr \<Rightarrow> world" where
  "swap_cache w this target =
    (let cache = loadedTexturesCache w;
         index = indexOf cache this;
         cache1 = (if index \<noteq> - 1 then splice1 cache index else cache);
         index1 = indexOf cache1 target;
         cache2 = (if index1 = - 1 then push cache1 target else cache1)
     in w\<lparr>loadedTexturesCache := cache2\<rparr>)"

definition swapAndDie :: "world \<Rightarrow> addr \<Rightarrow> addr \<Rightarrow> bool \<Rightarrow> world" where
  "swapAndDie w this target swapAll =
    (let w1 = swap_setUsage w this target;
         w2 = swap_hardwareTexture w1 this target;
         w3 = (if swapAll then swap_isRGBD w2 this target else w2);
         w4 = swap_lodTextureHigh w3 this target;
         w5 = swap_lodTextureMid w4 this target;
         w6 = swap_lodTextureLow w5 this target;
         w7 = swap_irradianceTexture w6 this target
     in swap_cache w7 this target)"

section \<open>Recovery: \<open>_rebuild\<close>\<close>

definition setIsReady :: "world \<Rightarrow> addr \<Rightarrow> bool \<Rightarrow> world" where
  "setIsReady w this b = upd w this (\<lambda>t. t\<lparr>isReady := b\<rparr>)"

text \<open>
  The bodies of the four closures that \<open>_rebuild\<close> creates, run with the value the
  caller passes: \<open>swapAndSetIsReady\<close> of the custom path, and the \<open>onLoad\<close> callbacks of
  the \<open>Url\<close>, \<open>Cube\<close> and \<open>CubePrefiltered\<close> branches. The \<open>Cube\<close> closure ignores its
  argument and reads the variable \<open>proxy\<close> of \<open>_rebuild\<close>, which is captured with the
  closure; calling a method on \<open>null\<close> or \<open>undefined\<close> throws. \<open>swapAndSetIsReady\<close>
  reads \<open>data.isReady\<close> when it runs; the object that the custom callback returned is
  taken not to change in between, so the closure carries the flag.
\<close>

fun run_callback :: "world \<Rightarrow> callback \<Rightarrow> addr option \<Rightarrow> world \<times> outcome" where
  "run_callback w (SwapAndSetIsReady this ready) (Some proxyInternalTexture) =
     (setIsReady (swapAndDie w proxyInternalTexture this False) this ready, Done)"
| "run_callback w (SwapAndSetIsReady this ready) None = (w, Threw TypeError)"
| "run_callback w (UrlLoaded this) (Some temp) =
     (setIsReady (swapAndDie w temp this False) this True, Done)"
| "run_callback w (UrlLoaded this) None = (w, Threw TypeError)"
| "run_callback w (CubeLoaded this prox) arg =
     (setIsReady (swapAndDie w prox this False) this True, Done)"
| "run_callback w (PrefilteredLoaded this) (Some prox) =
     (setIsReady (swapAndDie w prox this False) this True, Done)"
| "run_callback w (PrefilteredLoaded this) None = (setIsReady w this True, Done)"

text \<open>
  \<open>this._rebuild()\<close>: the six assignments it starts with (\<open>rebuild_reset\<close>), then the
  custom callback or the \<open>switch\<close> on the source kind. The engine's answers are asked
  in the state at the call. A branch of the \<open>switch\<close> that ends in \<open>break\<close>, and a
  source kind without a \<open>case\<close>, fall out of the \<open>switch\<close> to the end of the method.
\<close>

definition rebuild_reset :: "world \<Rightarrow> addr \<Rightarrow> world" where
  "rebuild_reset w this =
    (let w1 = upd w this (\<lambda>t. t\<lparr>isReady := False\<rparr>);
         w2 = upd w1 this (\<lambda>t. t\<lparr>cachedCoordinatesMode := None\<rparr>);
         w3 = upd w2 this (\<lambda>t. t\<lparr>cachedWrapU := None\<rparr>);
         w4 = upd w3 this (\<lambda>t. t\<lparr>cachedWrapV := None\<rparr>);
         w5 = upd w4 this (\<lambda>t. t\<lparr>cachedWrapR := None\<rparr>)
     in upd w5 this (\<lambda>t. t\<lparr>cachedAnisotropicFilteringLevel := None\<rparr>))"

definition rebuild :: "device \<Rightarrow> world \<Rightarrow> addr \<Rightarrow> world \<times> outcome" where
  "rebuild dev w this =
    (let w6 = rebuild_reset w this;
         t = heap w6 this
     in case onRebuildCallback t of
          Some cb \<Rightarrow>
            (let data = rebuildData dev w6 cb this;
                 w7 = issue w6 (OnRebuildCallback cb this)
             in if data_isAsync data
                then (case data_proxy data of
                        Some (ProxyPromise p) \<Rightarrow>
                          (issue w7 (PromiseThen p),
                           Pending (SwapAndSetIsReady this (data_isReady data)))
                      | _ \<Rightarrow> (w7, Threw TypeError))
                else (case data_proxy data of
                        Some (ProxyTexture p) \<Rightarrow>
                          run_callback w7 (SwapAndSetIsReady this (data_isReady data)) (Some p)
                      | _ \<Rightarrow> (w7, Threw TypeError)))
        | None \<Rightarrow>
            (case source t of
               Temp \<Rightarrow> (w6, Done)
             | Url \<Rightarrow>
                 (let c = CreateTexture
                            (case originalUrl t of None \<Rightarrow> url t | Some u \<Rightarrow> u)
                            (\<not> generateMipMaps t) (invertY t) (samplingMode t) (buffer t)
                            (format t) (extension t) (useSRGBBuffer t);
                      w7 = issue w6 c
                  in case completion dev w6 c of
                       Deferred \<Rightarrow> (w7, Pending (UrlLoaded this))
                     | Immediate temp \<Rightarrow> run_callback w7 (UrlLoaded this) temp)
             | Raw \<Rightarrow>
                 (let c = CreateRawTexture (bufferView t) (baseWidth t) (baseHeight t)
                            (format t) (generateMipMaps t) (invertY t) (samplingMode t)
                            (compression t) (type t) (useSRGBBuffer t);
                      prox = created dev w6 c;
                      w7 = swapAndDie (issue w6 c) prox this False
                  in (setIsReady w7 this True, Done))
             | Raw3D \<Rightarrow>
                 (let c = CreateRawTexture3D (bufferView t) (baseWidth t) (baseHeight t)
                            (baseDepth t) (format t) (generateMipMaps t) (invertY t)
                            (samplingMode t) (compression t) (type t);
                      prox = created dev w6 c;
                      w7 = swapAndDie (issue w6 c) prox this False
                  in (setIsReady w7 this True, Done))
             | Raw2DArray \<Rightarrow>
                 (let c = CreateRawTexture2DArray (bufferView t) (baseWidth t) (baseHeight t)
                            (baseDepth t) (format t) (generateMipMaps t) (invertY t)
                            (samplingMode t) (compression t) (type t);
                      prox = created dev w6 c;
                      w7 = swapAndDie (issue w6 c) prox this False
                  in (setIsReady w7 this True, Done))
             | Dynamic \<Rightarrow>
                 (let c = CreateDynamicTexture (baseWidth t) (baseHeight t)
                            (generateMipMaps t) (samplingMode t);
                      prox = created dev w6 c;
                      w7 = swapAndDie (issue w6 c) prox this False;
                      w8 = issue w7 GetRenderingCanvas
                  in (issue w8 (UpdateDynamicTexture this (invertY (heap w8 this))), Done))
             | Cube \<Rightarrow>
                 (let c = CreateCubeTexture (url t) (files t) (\<not> generateMipMaps t)
                            (format t) (extension t) (useSRGBBuffer t);
                      w7 = issue w6 c
                  in case completion dev w6 c of
                       Deferred \<Rightarrow> (w7, Pending (CubeLoaded this (created dev w6 c)))
                     | Immediate arg \<Rightarrow> (w7, Threw TypeError))
             | CubeRaw \<Rightarrow>
                 (let c = CreateRawCubeTexture (bufferViewArray t) (width t) (format t)
                            (type t) (generateMipMaps t) (invertY t) (samplingMode t)
                            (compression t);
                      prox = created dev w6 c;
                      w7 = swapAndDie (issue w6 c) prox this False
                  in (setIsReady w7 this True, Done))
             | CubeRawRGBD \<Rightarrow> (w6, Done)
             | CubePrefiltered \<Rightarrow>
                 (let c = CreatePrefilteredCubeTexture (url t) (lodGenerationScale t)
                            (lodGenerationOffset t) (format t) (extension t);
                      prox = created dev w6 c;
                      w7 = issue w6 c
                  in case completion dev w6 c of
                       Deferred \<Rightarrow>
                         (upd w7 prox
                            (\<lambda>p. p\<lparr>sphericalPolynomial := sphericalPolynomial (heap w7 this)\<rparr>),
                          Pending (PrefilteredLoaded this))
                     | Immediate arg \<Rightarrow>
                         (let w8 = fst (run_callback w7 (PrefilteredLoaded this) arg)
                          in (upd w8 prox
                                (\<lambda>p. p\<lparr>sphericalPolynomial :=
                                          sphericalPolynomial (heap w8 this)\<rparr>),
                              Done)))
             | _ \<Rightarrow> (w6, Done)))"

section \<open>Sequences of reference-counting calls\<close>

datatype lifecycle = IncrementReferences | Dispose

fun lifecycle_step :: "addr \<Rightarrow> world \<Rightarrow> lifecycle \<Rightarrow> world" where
  "lifecycle_step this w IncrementReferences = incrementReferences w this"
| "lifecycle_step this w Dispose = dispose w this"

definition lifecycle_run :: "world \<Rightarrow> addr \<Rightarrow> lifecycle list \<Rightarrow> world" where
  "lifecycle_run w this ops = foldl (lifecycle_step this) w ops"

definition releases :: "world \<Rightarrow> addr \<Rightarrow> nat" where
  "releases w this = count_list (calls w) (ReleaseTexture this)"

section \<open>Observations used in the statements\<close>

text \<open>The descriptors in use whose \<open>_hardwareTexture\<close> field references the handle \<open>h\<close>.\<close>

definition owners :: "world \<Rightarrow> ref \<Rightarrow> addr list" where
  "owners w h = filter (\<lambda>a. hardwareTexture (heap w a) = Some h) [0..<allocated w]"

text \<open>The ready flag is down and the five cached sampler values are \<open>null\<close>.\<close>

definition cleared :: "InternalTexture \<Rightarrow> bool" where
  "cleared t \<longleftrightarrow>
     \<not> isReady t \<and> cachedCoordinatesMode t = None \<and> cachedWrapU t = None
     \<and> cachedWrapV t = None \<and> cachedWrapR t = None
     \<and> cachedAnisotropicFilteringLevel t = None"

text \<open>
  What a transfer into \<open>this\<close> may write: in every descriptor at most the ready flag,
  the handle, the four derived textures and the spherical polynomial, and in \<open>this\<close>
  not the spherical polynomial.
\<close>

definition rebuild_frame :: "addr \<Rightarrow> world \<Rightarrow> world \<Rightarrow> bool" where
  "rebuild_frame this w v \<longleftrightarrow>
     (\<forall>a. \<exists>r h l1 l2 l3 i sp.
        heap v a =
          (heap w a)\<lparr>isReady := r, hardwareTexture := h, lodTextureHigh := l1,
                      lodTextureMid := l2, lodTextureLow := l3, irradianceTexture := i,
                      sphericalPolynomial :=
                        (if a = this then sphericalPolynomial (heap w a) else sp)\<rparr>)"

section \<open>A concrete engine and concrete states\<close>

definition sampler0 :: TextureSampler where
  "sampler0 = \<lparr> samplingMode = - 1, cachedWrapU = None, cachedWrapV = None,
                 cachedWrapR = None, cachedAnisotropicFilteringLevel = None \<rparr>"

definition world0 :: world where
  "world0 = \<lparr> heap = (\<lambda>a. declared sampler0 Unknown 0), allocated = 0, Counter = 0,
               loadedTexturesCache = [], calls = [] \<rparr>"

text \<open>
  An engine that hands out the number of calls made so far as the next handle, accepts
  every resize, defers every completion and returns descriptor \<open>1\<close> from every creation
  call.
\<close>

definition device0 :: device where
  "device0 = \<lparr> hardwareTextureCreated = (\<lambda>w. length (calls w)),
                dimensionsAccepted = (\<lambda>w c. True),
                rebuildData = (\<lambda>w cb a. \<lparr> data_proxy = None, data_isReady = False,
                                            data_isAsync = False \<rparr>),
                created = (\<lambda>w c. 1),
                completion = (\<lambda>w c. Deferred) \<rparr>"

text \<open>One descriptor, at address \<open>0\<close>, created with a hardware texture.\<close>

definition world1 :: world where
  "world1 = snd (InternalTexture_new device0 world0 sampler0 Raw False)"

text \<open>
  A second descriptor, at address \<open>1\<close>, created with a hardware texture of its own; the
  engine holds both descriptors in its cache.
\<close>

definition world2 :: world where
  "world2 = (snd (InternalTexture_new device0 world1 sampler0 Raw False))
              \<lparr>loadedTexturesCache := [0, 1]\<rparr>"

text \<open>
  A descriptor of source kind \<open>Temp\<close> at address \<open>0\<close> that the engine has marked
  ready.
\<close>

definition worldT :: world where
  "worldT = upd (snd (InternalTexture_new device0 world0 sampler0 Temp False)) 0
              (\<lambda>t. t\<lparr>isReady := True\<rparr>)"

text \<open>
  A prefiltered cube descriptor at address \<open>0\<close> that holds the spherical polynomial
  \<open>7\<close>.
\<close>

definition worldP :: world where
  "worldP = upd (snd (InternalTexture_new device0 world0 sampler0 CubePrefiltered False)) 0
              (\<lambda>t. t\<lparr>sphericalPolynomial := Some 7\<rparr>)"

text \<open>\<open>world2\<close> with the replacement at address \<open>1\<close> flagged as RGBD-encoded.\<close>

definition worldR :: world where
  "worldR = upd world2 (Suc 0) (\<lambda>t. t\<lparr>isRGBD := True\<rparr>)"

text \<open>
  \<open>world2\<close> with a custom rebuild callback registered on the ready descriptor \<open>0\<close>,
  and two engines whose callback returns descriptor \<open>1\<close> synchronously: the callback
  of \<open>deviceA\<close> reports as \<open>isReady\<close> the ready flag that it finds on descriptor \<open>0\<close>,
  the callback of \<open>deviceB\<close> always reports \<open>false\<close>.
\<close>

definition worldC :: world where
  "worldC = upd world2 0 (\<lambda>t. t\<lparr>onRebuildCallback := Some 0, isReady := True\<rparr>)"

definition deviceA :: device where
  "deviceA = device0\<lparr>rebuildData :=
               (\<lambda>w cb a. \<lparr> data_proxy = Some (ProxyTexture 1),
                            data_isReady = isReady (heap w 0), data_isAsync = False \<rparr>)\<rparr>"

definition deviceB :: device where
  "deviceB = device0\<lparr>rebuildData :=
               (\<lambda>w cb a. \<lparr> data_proxy = Some (ProxyTexture 1),
                            data_isReady = False, data_isAsync = False \<rparr>)\<rparr>"

section \<open>Reference counting\<close>

lemma incrementReferences_references:
  "references (heap (incrementReferences w a) a) = references (heap w a) + 1"
  by (simp add: incrementReferences_def upd_def)

lemma incrementReferences_calls: "calls (incrementReferences w a) = calls w"
  by (simp add: incrementReferences_def upd_def)

lemma incrementReferences_hardwareTexture:
  "hardwareTexture (heap (incrementReferences w a) b) = hardwareTexture (heap w b)"
  by (simp add: incrementReferences_def upd_def)

lemma dispose_references:
  "references (heap (dispose w a) a) = references (heap w a) - 1"
  by (simp add: dispose_def upd_def issue_def Let_def)

lemma dispose_calls:
  "calls (dispose w a) =
     (if references (heap w a) = 1 then calls w @ [ReleaseTexture a] else calls w)"
  by (simp add: dispose_def upd_def issue_def Let_def)

lemma dispose_hardwareTexture:
  "hardwareTexture (heap (dispose w a) a) =
     (if references (heap w a) = 1 then None else hardwareTexture (heap w a))"
  by (simp add: dispose_def upd_def issue_def Let_def)

lemma step_references:
  "references (heap (lifecycle_step a w x) a) =
     references (heap w a) + (case x of IncrementReferences \<Rightarrow> 1 | Dispose \<Rightarrow> - 1)"
  by (cases x) (simp_all add: incrementReferences_references dispose_references)

lemma step_releases:
  "releases (lifecycle_step a w x) a =
     releases w a + (if x = Dispose \<and> references (heap w a) = 1 then 1 else 0)"
  by (cases x) (simp_all add: releases_def incrementReferences_calls dispose_calls)

lemma run_Nil: "lifecycle_run w a [] = w"
  by (simp add: lifecycle_run_def)

lemma run_Cons: "lifecycle_run w a (x # xs) = lifecycle_run (lifecycle_step a w x) a xs"
  by (simp add: lifecycle_run_def)

lemma run_append: "lifecycle_run w a (xs @ ys) = lifecycle_run (lifecycle_run w a xs) a ys"
  by (simp add: lifecycle_run_def)

lemma run_take_Suc:
  "n < length ops \<Longrightarrow>
     lifecycle_run w a (take (Suc n) ops) =
       lifecycle_step a (lifecycle_run w a (take n ops)) (ops ! n)"
  by (simp add: lifecycle_run_def take_Suc_conv_app_nth)

lemma new_references:
  "InternalTexture_new dev w0 sampler src delay = (a, w) \<Longrightarrow> references (heap w a) = 1"
  by (auto simp: InternalTexture_new_def declared_def Let_def upd_def issue_def
           split: if_splits)

lemma world1_new: "InternalTexture_new device0 world0 sampler0 Raw False = (0, world1)"
  by (simp add: world1_def InternalTexture_new_def world0_def Let_def)

lemmas world1_eval =
  lifecycle_run_def world1_def InternalTexture_new_def world0_def device0_def sampler0_def
  declared_def dispose_def incrementReferences_def upd_def issue_def releases_def Let_def

text \<open>
  While every call finds a count of at least one, the engine has been asked to release
  the texture exactly when the count has come down to zero.
\<close>

lemma guarded_releases:
  assumes g: "\<forall>n<length ops. 1 \<le> references (heap (lifecycle_run w a (take n ops)) a)"
      and one: "references (heap w a) = 1"
  shows "n \<le> length ops \<Longrightarrow>
           releases (lifecycle_run w a (take n ops)) a =
             releases w a
             + (if references (heap (lifecycle_run w a (take n ops)) a) = 0 then 1 else 0)"
proof (induction n)
  case 0
  show ?case using one by (simp add: lifecycle_run_def)
next
  case (Suc n)
  then have n: "n < length ops" by simp
  let ?v = "lifecycle_run w a (take n ops)"
  have pos: "1 \<le> references (heap ?v a)" using g n by blast
  have ih: "releases ?v a = releases w a" using Suc.IH n pos by simp
  show ?case
    using pos ih
    by (simp add: run_take_Suc [OF n] step_references step_releases
             del: lifecycle_step.simps split: lifecycle.splits)
qed

lemma run_increments:
  "references (heap (lifecycle_run w a (replicate N IncrementReferences)) a)
     = references (heap w a) + int N
   \<and> calls (lifecycle_run w a (replicate N IncrementReferences)) = calls w
   \<and> hardwareTexture (heap (lifecycle_run w a (replicate N IncrementReferences)) a)
     = hardwareTexture (heap w a)"
  by (induction N arbitrary: w)
     (simp_all add: run_Nil run_Cons incrementReferences_references incrementReferences_calls
        incrementReferences_hardwareTexture)

text \<open>Disposals that never find a count of one leave the engine and the handle alone.\<close>

lemma run_disposes:
  "references (heap w a) \<le> 0 \<or> int M < references (heap w a) \<Longrightarrow>
   references (heap (lifecycle_run w a (replicate M Dispose)) a) = references (heap w a) - int M
   \<and> calls (lifecycle_run w a (replicate M Dispose)) = calls w
   \<and> hardwareTexture (heap (lifecycle_run w a (replicate M Dispose)) a)
     = hardwareTexture (heap w a)"
proof (induction M arbitrary: w)
  case 0
  show ?case by (simp add: run_Nil)
next
  case (Suc M)
  let ?v = "dispose w a"
  have ne: "references (heap w a) \<noteq> 1" using Suc.prems by auto
  have "references (heap ?v a) \<le> 0 \<or> int M < references (heap ?v a)"
    using Suc.prems by (auto simp: dispose_references)
  from Suc.IH [OF this] ne show ?case
    by (simp add: run_Cons dispose_references dispose_calls dispose_hardwareTexture)
qed

text \<open>
  Claim C1, as stated, fails. \<open>dispose()\<close> has no guard: two disposals of a fresh
  descriptor leave the count at \<open>-1\<close>, and a descriptor disposed, referenced again and
  disposed again is released twice.
\<close>

theorem references_unguarded_counterexample:
  "references (heap (lifecycle_run world1 0 [Dispose, Dispose]) 0) = - 1
   \<and> releases (lifecycle_run world1 0 [Dispose, IncrementReferences, Dispose]) 0
     = releases world1 0 + 2"
  by (simp add: world1_eval)

text \<open>
  Claim C1, amended. For every descriptor and every finite sequence of
  \<open>incrementReferences()\<close> and \<open>dispose()\<close> calls starting from creation (count 1) in
  which every call finds a count of at least 1, that is, no call is made once the
  count has reached 0: the count is at least 0 at every step; the engine's
  \<open>_releaseTexture\<close> is invoked at a step exactly when that step takes the count from 1
  to 0; and over the whole sequence it is invoked once if the count ends at 0 and not
  at all otherwise.
\<close>

theorem references_guarded_release_once:
  assumes new: "InternalTexture_new dev w0 sampler src delay = (this, w)"
      and g: "\<forall>n<length ops. 1 \<le> references (heap (lifecycle_run w this (take n ops)) this)"
  shows "(\<forall>n\<le>length ops. 0 \<le> references (heap (lifecycle_run w this (take n ops)) this))
       \<and> (\<forall>n<length ops.
            releases (lifecycle_run w this (take (Suc n) ops)) this =
              releases (lifecycle_run w this (take n ops)) this
              + (if references (heap (lifecycle_run w this (take n ops)) this) = 1
                    \<and> references (heap (lifecycle_run w this (take (Suc n) ops)) this) = 0
                 then 1 else 0))
       \<and> releases (lifecycle_run w this ops) this =
            releases w this
            + (if references (heap (lifecycle_run w this ops) this) = 0 then 1 else 0)"
proof (intro conjI allI impI)
  fix n assume n: "n \<le> length ops"
  show "0 \<le> references (heap (lifecycle_run w this (take n ops)) this)"
  proof (cases n)
    case 0
    then show ?thesis using new_references [OF new] by (simp add: lifecycle_run_def)
  next
    case (Suc m)
    then have m: "m < length ops" using n by simp
    have "1 \<le> references (heap (lifecycle_run w this (take m ops)) this)" using g m by blast
    then show ?thesis
      unfolding Suc
      by (simp add: run_take_Suc [OF m] step_references
               del: lifecycle_step.simps split: lifecycle.splits)
  qed
next
  fix n assume n: "n < length ops"
  have "1 \<le> references (heap (lifecycle_run w this (take n ops)) this)" using g n by blast
  then show "releases (lifecycle_run w this (take (Suc n) ops)) this =
              releases (lifecycle_run w this (take n ops)) this
              + (if references (heap (lifecycle_run w this (take n ops)) this) = 1
                    \<and> references (heap (lifecycle_run w this (take (Suc n) ops)) this) = 0
                 then 1 else 0)"
    by (simp add: run_take_Suc [OF n] step_references step_releases
             del: lifecycle_step.simps split: lifecycle.splits)
next
  show "releases (lifecycle_run w this ops) this =
          releases w this
          + (if references (heap (lifecycle_run w this ops) this) = 0 then 1 else 0)"
    using guarded_releases [OF g new_references [OF new], of "length ops"] by simp
qed

theorem references_guarded_release_once_witness:
  "releases (lifecycle_run world1 0 [IncrementReferences, Dispose, Dispose]) 0
     = releases world1 0 + 1
   \<and> releases (lifecycle_run world1 0 (take 2 [IncrementReferences, Dispose, Dispose])) 0
     = releases world1 0"
proof -
  let ?ops = "[IncrementReferences, Dispose, Dispose]"
  have g: "\<forall>n<length ?ops. 1 \<le> references (heap (lifecycle_run world1 0 (take n ?ops)) 0)"
  proof (intro allI impI)
    fix n assume "n < length ?ops"
    then have "n = 0 \<or> n = 1 \<or> n = 2" by auto
    then show "1 \<le> references (heap (lifecycle_run world1 0 (take n ?ops)) 0)"
      by (auto simp: world1_eval)
  qed
  have z: "references (heap (lifecycle_run world1 0 ?ops) 0) = 0"
          "references (heap (lifecycle_run world1 0 (take 2 ?ops)) 0) = 1"
    by (simp_all add: world1_eval)
  have s: "take (Suc 1) ?ops = take 2 ?ops" by simp
  from references_guarded_release_once [OF world1_new g] z s show ?thesis
    by (auto simp: world1_eval)
qed

text \<open>
  Claim C2, as stated, fails in its last part. A \<open>dispose()\<close> after the count has
  reached zero is neither rejected nor a no-op: it returns normally and leaves the
  count at \<open>-1\<close>.
\<close>

theorem dispose_after_zero_counterexample:
  "references (heap (lifecycle_run world1 0
                       (replicate 0 IncrementReferences @ replicate (Suc 0) Dispose)) 0) = 0
   \<and> references (heap (dispose (lifecycle_run world1 0
                       (replicate 0 IncrementReferences @ replicate (Suc 0) Dispose)) 0) 0) = - 1"
  by (simp add: world1_eval)

text \<open>
  Claim C2, amended. For every \<open>N\<close>: starting from a freshly created descriptor,
  \<open>N\<close> calls of \<open>incrementReferences()\<close> followed by \<open>N\<close> calls of \<open>dispose()\<close> make no
  call to the engine; the next \<open>dispose()\<close>, which is the \<open>N+1\<close>-th, invokes
  \<open>_releaseTexture\<close> (once), leaves the count at 0 and the local \<open>_hardwareTexture\<close>
  reference \<open>null\<close>. Further \<open>dispose()\<close> calls are not rejected and are not no-ops,
  as each lowers the count by one (to \<open>-K\<close> after \<open>K\<close> of them), but none of them calls
  the engine again and the handle reference stays \<open>null\<close>.
\<close>

theorem balanced_disposal_releases_once:
  assumes new: "InternalTexture_new dev w0 sampler src delay = (this, w)"
  shows "calls (lifecycle_run w this (replicate N IncrementReferences @ replicate N Dispose))
           = calls w
       \<and> (let w1 = lifecycle_run w this
                      (replicate N IncrementReferences @ replicate (Suc N) Dispose)
          in calls w1 = calls w @ [ReleaseTexture this]
           \<and> releases w1 this = releases w this + 1
           \<and> hardwareTexture (heap w1 this) = None
           \<and> references (heap w1 this) = 0
           \<and> (\<forall>K. let w2 = lifecycle_run w1 this (replicate K Dispose)
                   in references (heap w2 this) = - int K
                    \<and> calls w2 = calls w1
                    \<and> releases w2 this = releases w1 this
                    \<and> hardwareTexture (heap w2 this) = None))"
proof -
  let ?u = "lifecycle_run w this (replicate N IncrementReferences)"
  let ?v = "lifecycle_run ?u this (replicate N Dispose)"
  let ?w1 = "dispose ?v this"
  have u: "references (heap ?u this) = 1 + int N" "calls ?u = calls w"
    using run_increments [of w this N] new_references [OF new] by simp_all
  have v: "references (heap ?v this) = 1" "calls ?v = calls w"
    using run_disposes [of ?u this N] u by simp_all
  have w1: "references (heap ?w1 this) = 0" "calls ?w1 = calls w @ [ReleaseTexture this]"
           "hardwareTexture (heap ?w1 this) = None"
    using v by (simp_all add: dispose_references dispose_calls dispose_hardwareTexture)
  have "replicate (Suc N) Dispose = replicate N Dispose @ [Dispose]"
    by (simp add: replicate_append_same)
  then have eq: "lifecycle_run w this
                   (replicate N IncrementReferences @ replicate (Suc N) Dispose) = ?w1"
    by (simp only: run_append run_Cons run_Nil lifecycle_step.simps)
  have after: "references (heap (lifecycle_run ?w1 this (replicate K Dispose)) this) = - int K
             \<and> calls (lifecycle_run ?w1 this (replicate K Dispose)) = calls ?w1
             \<and> hardwareTexture (heap (lifecycle_run ?w1 this (replicate K Dispose)) this) = None"
    for K
    using run_disposes [of ?w1 this K] w1 by simp
  show ?thesis
    unfolding eq Let_def using v w1 after by (simp add: run_append releases_def)
qed

theorem balanced_disposal_releases_once_witness:
  "calls (lifecycle_run world1 0 (replicate 2 IncrementReferences @ replicate (Suc 2) Dispose))
     = [CreateHardwareTexture, ReleaseTexture 0]
   \<and> calls (lifecycle_run
             (lifecycle_run world1 0 (replicate 2 IncrementReferences @ replicate (Suc 2) Dispose))
             0 (replicate 4 Dispose))
     = [CreateHardwareTexture, ReleaseTexture 0]"
proof -
  have c: "calls world1 = [CreateHardwareTexture]"
    by (simp add: world1_eval)
  from balanced_disposal_releases_once [OF world1_new, of 2] c show ?thesis
    by (simp add: Let_def)
qed

section \<open>The store and the call log\<close>

lemma heap_issue [simp]: "heap (issue w c) = heap w"
  by (simp add: issue_def)

lemma heap_upd [simp]: "heap (upd w a f) = (heap w)(a := f (heap w a))"
  by (simp add: upd_def)

lemma cache_issue [simp]: "loadedTexturesCache (issue w c) = loadedTexturesCache w"
  by (simp add: issue_def)

lemma cache_upd [simp]: "loadedTexturesCache (upd w a f) = loadedTexturesCache w"
  by (simp add: upd_def)

lemma allocated_issue [simp]: "allocated (issue w c) = allocated w"
  by (simp add: issue_def)

lemma allocated_upd [simp]: "allocated (upd w a f) = allocated w"
  by (simp add: upd_def)

lemma calls_upd [simp]: "calls (upd w a f) = calls w"
  by (simp add: upd_def)

lemma calls_issue [simp]: "calls (issue w c) = calls w @ [c]"
  by (simp add: issue_def)

section \<open>The transfer, statement by statement\<close>

lemma heap_swap_setUsage [simp]: "heap (swap_setUsage w s t) = heap w"
  by (simp add: swap_setUsage_def split: option.splits)

lemma heap_swap_hardwareTexture:
  "heap (swap_hardwareTexture w s t) a =
     (heap w a)\<lparr>hardwareTexture :=
        if a = t then hardwareTexture (heap w s) else hardwareTexture (heap w a)\<rparr>"
  by (simp add: swap_hardwareTexture_def)

lemma heap_swap_isRGBD:
  "heap (swap_isRGBD w s t) a =
     (heap w a)\<lparr>isRGBD := if a = t then isRGBD (heap w s) else isRGBD (heap w a)\<rparr>"
  by (simp add: swap_isRGBD_def)

lemma heap_swap_lodTextureHigh:
  "heap (swap_lodTextureHigh w s t) a =
     (heap w a)\<lparr>lodTextureHigh :=
        if a = t \<and> lodTextureHigh (heap w s) \<noteq> None then lodTextureHigh (heap w s)
        else lodTextureHigh (heap w a)\<rparr>"
  by (simp add: swap_lodTextureHigh_def Let_def split: option.splits)

lemma heap_swap_lodTextureMid:
  "heap (swap_lodTextureMid w s t) a =
     (heap w a)\<lparr>lodTextureMid :=
        if a = t \<and> lodTextureMid (heap w s) \<noteq> None then lodTextureMid (heap w s)
        else lodTextureMid (heap w a)\<rparr>"
  by (simp add: swap_lodTextureMid_def Let_def split: option.splits)

lemma heap_swap_lodTextureLow:
  "heap (swap_lodTextureLow w s t) a =
     (heap w a)\<lparr>lodTextureLow :=
        if a = t \<and> lodTextureLow (heap w s) \<noteq> None then lodTextureLow (heap w s)
        else lodTextureLow (heap w a)\<rparr>"
  by (simp add: swap_lodTextureLow_def Let_def split: option.splits)

lemma heap_swap_irradianceTexture:
  "heap (swap_irradianceTexture w s t) a =
     (heap w a)\<lparr>irradianceTexture :=
        if a = t \<and> irradianceTexture (heap w s) \<noteq> None then irradianceTexture (heap w s)
        else irradianceTexture (heap w a)\<rparr>"
  by (simp add: swap_irradianceTexture_def Let_def split: option.splits)

lemma heap_swap_cache [simp]: "heap (swap_cache w s t) = heap w"
  by (simp add: swap_cache_def Let_def)

lemmas heap_swap_steps =
  heap_swap_hardwareTexture heap_swap_isRGBD heap_swap_lodTextureHigh heap_swap_lodTextureMid
  heap_swap_lodTextureLow heap_swap_irradianceTexture

lemma swapAndDie_frame:
  "\<exists>h r l1 l2 l3 i.
     heap (swapAndDie w s t b) a =
       (heap w a)\<lparr>hardwareTexture := h, isRGBD := r, lodTextureHigh := l1,
                   lodTextureMid := l2, lodTextureLow := l3, irradianceTexture := i\<rparr>"
proof -
  have "heap (swapAndDie w s t b) a =
       (heap w a)\<lparr>hardwareTexture := hardwareTexture (heap (swapAndDie w s t b) a),
                   isRGBD := isRGBD (heap (swapAndDie w s t b) a),
                   lodTextureHigh := lodTextureHigh (heap (swapAndDie w s t b) a),
                   lodTextureMid := lodTextureMid (heap (swapAndDie w s t b) a),
                   lodTextureLow := lodTextureLow (heap (swapAndDie w s t b) a),
                   irradianceTexture := irradianceTexture (heap (swapAndDie w s t b) a)\<rparr>"
    by (simp add: swapAndDie_def Let_def heap_swap_steps)
  then show ?thesis by blast
qed

lemma swapAndDie_hardwareTexture:
  "hardwareTexture (heap (swapAndDie w s t b) a) =
     (if a = t then hardwareTexture (heap w s) else hardwareTexture (heap w a))"
  by (simp add: swapAndDie_def Let_def heap_swap_steps)

lemma swapAndDie_isRGBD:
  "isRGBD (heap (swapAndDie w s t b) a) =
     (if a = t \<and> b then isRGBD (heap w s) else isRGBD (heap w a))"
  by (simp add: swapAndDie_def Let_def heap_swap_steps)


lemma allocated_swap_steps [simp]:
  "allocated (swap_setUsage w s t) = allocated w"
  "allocated (swap_hardwareTexture w s t) = allocated w"
  "allocated (swap_isRGBD w s t) = allocated w"
  "allocated (swap_lodTextureHigh w s t) = allocated w"
  "allocated (swap_lodTextureMid w s t) = allocated w"
  "allocated (swap_lodTextureLow w s t) = allocated w"
  "allocated (swap_irradianceTexture w s t) = allocated w"
  "allocated (swap_cache w s t) = allocated w"
  by (simp_all add: swap_setUsage_def swap_hardwareTexture_def swap_isRGBD_def
        swap_lodTextureHigh_def swap_lodTextureMid_def swap_lodTextureLow_def
        swap_irradianceTexture_def swap_cache_def Let_def split: option.splits)

lemma allocated_swapAndDie [simp]: "allocated (swapAndDie w s t b) = allocated w"
  by (simp add: swapAndDie_def Let_def)

lemma cache_swap_steps [simp]:
  "loadedTexturesCache (swap_setUsage w s t) = loadedTexturesCache w"
  "loadedTexturesCache (swap_hardwareTexture w s t) = loadedTexturesCache w"
  "loadedTexturesCache (swap_isRGBD w s t) = loadedTexturesCache w"
  "loadedTexturesCache (swap_lodTextureHigh w s t) = loadedTexturesCache w"
  "loadedTexturesCache (swap_lodTextureMid w s t) = loadedTexturesCache w"
  "loadedTexturesCache (swap_lodTextureLow w s t) = loadedTexturesCache w"
  "loadedTexturesCache (swap_irradianceTexture w s t) = loadedTexturesCache w"
  by (simp_all add: swap_setUsage_def swap_hardwareTexture_def swap_isRGBD_def
        swap_lodTextureHigh_def swap_lodTextureMid_def swap_lodTextureLow_def
        swap_irradianceTexture_def Let_def split: option.splits)

lemma swapAndDie_other: "a \<noteq> t \<Longrightarrow> heap (swapAndDie w s t b) a = heap w a"
  by (simp add: swapAndDie_def Let_def heap_swap_steps)

lemma swapAndDie_target:
  "heap (swapAndDie w s t False) t =
     (heap w t)\<lparr>hardwareTexture := hardwareTexture (heap w s),
                 lodTextureHigh := (case lodTextureHigh (heap w s) of
                                      None \<Rightarrow> lodTextureHigh (heap w t) | Some l \<Rightarrow> Some l),
                 lodTextureMid := (case lodTextureMid (heap w s) of
                                      None \<Rightarrow> lodTextureMid (heap w t) | Some l \<Rightarrow> Some l),
                 lodTextureLow := (case lodTextureLow (heap w s) of
                                      None \<Rightarrow> lodTextureLow (heap w t) | Some l \<Rightarrow> Some l),
                 irradianceTexture := (case irradianceTexture (heap w s) of
                                      None \<Rightarrow> irradianceTexture (heap w t) | Some l \<Rightarrow> Some l)\<rparr>"
  by (simp add: swapAndDie_def Let_def heap_swap_steps split: option.splits)

lemma swapAndDie_fields:
  "uniqueId (heap (swapAndDie w s t b) a) = uniqueId (heap w a)"
  "sphericalPolynomial (heap (swapAndDie w s t b) a) = sphericalPolynomial (heap w a)"
  using swapAndDie_frame [of w s t b a] by auto

section \<open>The loaded-textures cache\<close>

lemma indexOf_ge: "- 1 \<le> indexOf xs x"
  by (induction xs) (auto simp: Let_def)

lemma indexOf_absent: "indexOf xs x = - 1 \<longleftrightarrow> x \<notin> set xs"
proof (induction xs)
  case Nil
  show ?case by simp
next
  case (Cons y ys)
  have "indexOf ys x + 1 \<noteq> - 1" using indexOf_ge [of ys x] by arith
  with Cons show ?case by (auto simp: Let_def)
qed

lemma splice1_nonneg: "0 \<le> i \<Longrightarrow> splice1 xs i = take (nat i) xs @ drop (nat i + 1) xs"
  by (cases "i \<le> int (length xs)") (simp_all add: splice1_def Let_def min_def)

lemma splice1_indexOf: "x \<in> set xs \<Longrightarrow> splice1 xs (indexOf xs x) = remove1 x xs"
proof (induction xs)
  case Nil
  then show ?case by simp
next
  case (Cons y ys)
  show ?case
  proof (cases "y = x")
    case True
    then show ?thesis by (simp add: splice1_nonneg)
  next
    case False
    then have mem: "x \<in> set ys" using Cons.prems by simp
    then have i: "indexOf ys x \<noteq> - 1" by (simp add: indexOf_absent)
    then have nn: "0 \<le> indexOf ys x" using indexOf_ge [of ys x] by arith
    have "nat (indexOf ys x + 1) = Suc (nat (indexOf ys x))" using nn by simp
    with Cons.IH [OF mem] False i nn show ?thesis
      by (simp add: splice1_nonneg Let_def)
  qed
qed

lemma cache_swap_cache:
  "loadedTexturesCache (swap_cache w s t) =
     (if t \<in> set (remove1 s (loadedTexturesCache w)) then remove1 s (loadedTexturesCache w)
      else remove1 s (loadedTexturesCache w) @ [t])"
  by (cases "s \<in> set (loadedTexturesCache w)")
     (simp_all add: swap_cache_def Let_def indexOf_absent splice1_indexOf remove1_idem push_def)

lemma cache_swapAndDie:
  "loadedTexturesCache (swapAndDie w s t b) =
     (if t \<in> set (remove1 s (loadedTexturesCache w)) then remove1 s (loadedTexturesCache w)
      else remove1 s (loadedTexturesCache w) @ [t])"
  by (simp add: swapAndDie_def Let_def cache_swap_cache)

lemma distinct_count_list_one: "distinct xs \<Longrightarrow> x \<in> set xs \<Longrightarrow> count_list xs x = 1"
  by (induction xs) auto

section \<open>Callbacks and rebuild: what they leave alone\<close>

lemma heap_setIsReady [simp]:
  "heap (setIsReady w a b) = (heap w)(a := (heap w a)\<lparr>isReady := b\<rparr>)"
  by (simp add: setIsReady_def)

lemma heap_rebuild_reset:
  "heap (rebuild_reset w this) =
     (heap w)(this := (heap w this)\<lparr>isReady := False, cachedCoordinatesMode := None,
                 cachedWrapU := None, cachedWrapV := None, cachedWrapR := None,
                 cachedAnisotropicFilteringLevel := None\<rparr>)"
  by (simp add: rebuild_reset_def Let_def)

lemma run_callback_other:
  "a \<noteq> (case cb of UrlLoaded t \<Rightarrow> t | CubeLoaded t p \<Rightarrow> t | PrefilteredLoaded t \<Rightarrow> t
              | SwapAndSetIsReady t r \<Rightarrow> t) \<Longrightarrow>
   heap (fst (run_callback w cb arg)) a = heap w a"
  by (cases cb; cases arg) (simp_all add: swapAndDie_other)

lemma run_callback_frame:
  "\<exists>r h l1 l2 l3 i.
     heap (fst (run_callback w cb arg)) a =
       (heap w a)\<lparr>isReady := r, hardwareTexture := h, lodTextureHigh := l1,
                   lodTextureMid := l2, lodTextureLow := l3, irradianceTexture := i\<rparr>"
proof -
  let ?v = "fst (run_callback w cb arg)"
  let ?t = "(case cb of UrlLoaded t \<Rightarrow> t | CubeLoaded t p \<Rightarrow> t | PrefilteredLoaded t \<Rightarrow> t
              | SwapAndSetIsReady t r \<Rightarrow> t)"
  have "heap ?v a =
       (heap w a)\<lparr>isReady := isReady (heap ?v a),
                   hardwareTexture := hardwareTexture (heap ?v a),
                   lodTextureHigh := lodTextureHigh (heap ?v a),
                   lodTextureMid := lodTextureMid (heap ?v a),
                   lodTextureLow := lodTextureLow (heap ?v a),
                   irradianceTexture := irradianceTexture (heap ?v a)\<rparr>"
  proof (cases "a = ?t")
    case False
    then show ?thesis by (simp add: run_callback_other)
  next
    case True
    then show ?thesis
      by (cases cb; cases arg) (simp_all add: swapAndDie_target)
  qed
  then show ?thesis by blast
qed


lemma rebuild_frame_refl: "rebuild_frame this w w"
proof -
  have "heap w a =
          (heap w a)\<lparr>isReady := isReady (heap w a), hardwareTexture := hardwareTexture (heap w a),
                      lodTextureHigh := lodTextureHigh (heap w a),
                      lodTextureMid := lodTextureMid (heap w a),
                      lodTextureLow := lodTextureLow (heap w a),
                      irradianceTexture := irradianceTexture (heap w a),
                      sphericalPolynomial :=
                        (if a = this then sphericalPolynomial (heap w a)
                         else sphericalPolynomial (heap w a))\<rparr>" for a
    by simp
  then show ?thesis unfolding rebuild_frame_def by blast
qed

lemma rebuild_frame_step:
  assumes f: "rebuild_frame this w v"
      and s: "\<And>a. \<exists>r h l1 l2 l3 i sp.
                heap v' a =
                  (heap v a)\<lparr>isReady := r, hardwareTexture := h, lodTextureHigh := l1,
                      lodTextureMid := l2, lodTextureLow := l3, irradianceTexture := i,
                      sphericalPolynomial :=
                        (if a = this then sphericalPolynomial (heap v a) else sp)\<rparr>"
  shows "rebuild_frame this w v'"
  unfolding rebuild_frame_def
proof
  fix a
  from f obtain r h l1 l2 l3 i sp where
    1: "heap v a = (heap w a)\<lparr>isReady := r, hardwareTexture := h, lodTextureHigh := l1,
                      lodTextureMid := l2, lodTextureLow := l3, irradianceTexture := i,
                      sphericalPolynomial :=
                        (if a = this then sphericalPolynomial (heap w a) else sp)\<rparr>"
    unfolding rebuild_frame_def by blast
  from s [of a] obtain r' h' l1' l2' l3' i' sp' where
    2: "heap v' a = (heap v a)\<lparr>isReady := r', hardwareTexture := h', lodTextureHigh := l1',
                      lodTextureMid := l2', lodTextureLow := l3', irradianceTexture := i',
                      sphericalPolynomial :=
                        (if a = this then sphericalPolynomial (heap v a) else sp')\<rparr>"
    by blast
  have "heap v' a = (heap w a)\<lparr>isReady := r', hardwareTexture := h', lodTextureHigh := l1',
                      lodTextureMid := l2', lodTextureLow := l3', irradianceTexture := i',
                      sphericalPolynomial :=
                        (if a = this then sphericalPolynomial (heap w a) else sp')\<rparr>"
    unfolding 2 unfolding 1 by simp
  then show "\<exists>r h l1 l2 l3 i sp.
        heap v' a =
          (heap w a)\<lparr>isReady := r, hardwareTexture := h, lodTextureHigh := l1,
                      lodTextureMid := l2, lodTextureLow := l3, irradianceTexture := i,
                      sphericalPolynomial :=
                        (if a = this then sphericalPolynomial (heap w a) else sp)\<rparr>"
    by blast
qed


lemma rebuild_frame_stepI:
  assumes f: "rebuild_frame this w v"
      and s: "\<And>a. heap v' a =
                  (heap v a)\<lparr>isReady := isReady (heap v' a),
                      hardwareTexture := hardwareTexture (heap v' a),
                      lodTextureHigh := lodTextureHigh (heap v' a),
                      lodTextureMid := lodTextureMid (heap v' a),
                      lodTextureLow := lodTextureLow (heap v' a),
                      irradianceTexture := irradianceTexture (heap v' a),
                      sphericalPolynomial :=
                        (if a = this then sphericalPolynomial (heap v a)
                         else sphericalPolynomial (heap v' a))\<rparr>"
  shows "rebuild_frame this w v'"
  using f
proof (rule rebuild_frame_step)
  fix a
  from s [of a] show "\<exists>r h l1 l2 l3 i sp.
                heap v' a =
                  (heap v a)\<lparr>isReady := r, hardwareTexture := h, lodTextureHigh := l1,
                      lodTextureMid := l2, lodTextureLow := l3, irradianceTexture := i,
                      sphericalPolynomial :=
                        (if a = this then sphericalPolynomial (heap v a) else sp)\<rparr>"
    by blast
qed

lemma rebuild_frame_issue: "rebuild_frame this w v \<Longrightarrow> rebuild_frame this w (issue v c)"
  by (erule rebuild_frame_stepI) simp

lemma rebuild_frame_setIsReady:
  "rebuild_frame this w v \<Longrightarrow> rebuild_frame this w (setIsReady v a b)"
  by (erule rebuild_frame_stepI) simp

lemma rebuild_frame_swapAndDie:
  "rebuild_frame this w v \<Longrightarrow> rebuild_frame this w (swapAndDie v s t False)"
proof (erule rebuild_frame_stepI)
  fix a
  show "heap (swapAndDie v s t False) a =
          (heap v a)\<lparr>isReady := isReady (heap (swapAndDie v s t False) a),
              hardwareTexture := hardwareTexture (heap (swapAndDie v s t False) a),
              lodTextureHigh := lodTextureHigh (heap (swapAndDie v s t False) a),
              lodTextureMid := lodTextureMid (heap (swapAndDie v s t False) a),
              lodTextureLow := lodTextureLow (heap (swapAndDie v s t False) a),
              irradianceTexture := irradianceTexture (heap (swapAndDie v s t False) a),
              sphericalPolynomial :=
                (if a = this then sphericalPolynomial (heap v a)
                 else sphericalPolynomial (heap (swapAndDie v s t False) a))\<rparr>"
    by (cases "a = t") (simp_all add: swapAndDie_target swapAndDie_other)
qed

lemma rebuild_frame_sphericalPolynomial:
  "rebuild_frame this w v \<Longrightarrow> y = sphericalPolynomial (heap v this) \<Longrightarrow>
   rebuild_frame this w (upd v p (\<lambda>x. x\<lparr>sphericalPolynomial := y\<rparr>))"
  by (erule rebuild_frame_stepI) simp

lemma rebuild_frame_run_callback:
  "rebuild_frame this w v \<Longrightarrow> rebuild_frame this w (fst (run_callback v cb arg))"
  by (cases cb; cases arg)
     (simp_all add: rebuild_frame_setIsReady rebuild_frame_swapAndDie)

lemmas rebuild_frame_intros =
  rebuild_frame_refl rebuild_frame_issue rebuild_frame_setIsReady rebuild_frame_swapAndDie
  rebuild_frame_sphericalPolynomial rebuild_frame_run_callback

lemma rebuild_frame_rebuild:
  "rebuild_frame this (rebuild_reset w this) (fst (rebuild dev w this))"
  by (simp add: rebuild_def Let_def rebuild_frame_intros
           split: option.splits InternalTextureSource.splits proxy.splits completion.splits)
lemma rebuild_frame_fields:
  assumes "rebuild_frame this w v"
  shows "uniqueId (heap v a) = uniqueId (heap w a)"
    and "isRGBD (heap v a) = isRGBD (heap w a)"
    and "cachedCoordinatesMode (heap v a) = cachedCoordinatesMode (heap w a)"
    and "cachedWrapU (heap v a) = cachedWrapU (heap w a)"
    and "cachedWrapV (heap v a) = cachedWrapV (heap w a)"
    and "cachedWrapR (heap v a) = cachedWrapR (heap w a)"
    and "cachedAnisotropicFilteringLevel (heap v a) = cachedAnisotropicFilteringLevel (heap w a)"
    and "sphericalPolynomial (heap v this) = sphericalPolynomial (heap w this)"
proof -
  from assms obtain r h l1 l2 l3 i sp where
    a: "heap v a = (heap w a)\<lparr>isReady := r, hardwareTexture := h, lodTextureHigh := l1,
                      lodTextureMid := l2, lodTextureLow := l3, irradianceTexture := i,
                      sphericalPolynomial :=
                        (if a = this then sphericalPolynomial (heap w a) else sp)\<rparr>"
    unfolding rebuild_frame_def by blast
  from assms obtain r' h' l1' l2' l3' i' sp' where
    t: "heap v this = (heap w this)\<lparr>isReady := r', hardwareTexture := h', lodTextureHigh := l1',
                      lodTextureMid := l2', lodTextureLow := l3', irradianceTexture := i',
                      sphericalPolynomial :=
                        (if this = this then sphericalPolynomial (heap w this) else sp')\<rparr>"
    unfolding rebuild_frame_def by blast
  show "uniqueId (heap v a) = uniqueId (heap w a)"
    and "isRGBD (heap v a) = isRGBD (heap w a)"
    and "cachedCoordinatesMode (heap v a) = cachedCoordinatesMode (heap w a)"
    and "cachedWrapU (heap v a) = cachedWrapU (heap w a)"
    and "cachedWrapV (heap v a) = cachedWrapV (heap w a)"
    and "cachedWrapR (heap v a) = cachedWrapR (heap w a)"
    and "cachedAnisotropicFilteringLevel (heap v a) = cachedAnisotropicFilteringLevel (heap w a)"
    unfolding a by simp_all
  show "sphericalPolynomial (heap v this) = sphericalPolynomial (heap w this)"
    unfolding t by simp
qed

lemma run_callback_fields:
  "uniqueId (heap (fst (run_callback w cb arg)) a) = uniqueId (heap w a)"
  "isRGBD (heap (fst (run_callback w cb arg)) a) = isRGBD (heap w a)"
  "sphericalPolynomial (heap (fst (run_callback w cb arg)) a) = sphericalPolynomial (heap w a)"
  using run_callback_frame [of w cb arg a] by auto

lemma rebuild_fields:
  "uniqueId (heap (fst (rebuild dev w this)) a) = uniqueId (heap w a)"
  "isRGBD (heap (fst (rebuild dev w this)) a) = isRGBD (heap w a)"
  "sphericalPolynomial (heap (fst (rebuild dev w this)) this) = sphericalPolynomial (heap w this)"
  "cachedCoordinatesMode (heap (fst (rebuild dev w this)) this) = None"
  "cachedWrapU (heap (fst (rebuild dev w this)) this) = None"
  "cachedWrapV (heap (fst (rebuild dev w this)) this) = None"
  "cachedWrapR (heap (fst (rebuild dev w this)) this) = None"
  "cachedAnisotropicFilteringLevel (heap (fst (rebuild dev w this)) this) = None"
  by (simp_all add: rebuild_frame_fields [OF rebuild_frame_rebuild] heap_rebuild_reset)

lemma calls_rebuild_reset [simp]: "calls (rebuild_reset w this) = calls w"
  by (simp add: rebuild_reset_def Let_def)

lemma cleared_rebuild_reset: "cleared (heap (rebuild_reset w this) this)"
  by (simp add: heap_rebuild_reset cleared_def)

lemma rebuild_without_recreation:
  assumes "onRebuildCallback (heap w this) = None"
      and "source (heap w this)
             \<in> {Temp, CubeRawRGBD, Unknown, RenderTarget, MultiRenderTarget, DepthStencil, Depth}"
  shows "rebuild dev w this = (rebuild_reset w this, Done)"
  using assms by (auto simp: rebuild_def Let_def heap_rebuild_reset)

lemma rebuild_reset_eq:
  "rebuild_reset w this =
     w\<lparr>heap := (heap w)(this := (heap w this)\<lparr>isReady := False, cachedCoordinatesMode := None,
                 cachedWrapU := None, cachedWrapV := None, cachedWrapR := None,
                 cachedAnisotropicFilteringLevel := None\<rparr>)\<rparr>"
  by (simp add: rebuild_reset_def Let_def upd_def)

lemma run_callback_not_pending [simp]: "snd (run_callback w cb arg) \<noteq> Pending c"
  by (cases cb; cases arg) simp_all

lemma rebuild_pending_cleared:
  "snd (rebuild dev w this) = Pending cb \<Longrightarrow> cleared (heap (fst (rebuild dev w this)) this)"
  by (auto simp: rebuild_def Let_def heap_rebuild_reset cleared_def
           split: option.splits InternalTextureSource.splits proxy.splits completion.splits
                  if_splits)

section \<open>The concrete states, evaluated\<close>

lemma world1_eq:
  "world1 = \<lparr> heap = (\<lambda>a. declared sampler0 Unknown 0)
                       (0 := (declared sampler0 Raw 0)\<lparr>hardwareTexture := Some 0\<rparr>),
              allocated = Suc 0, Counter = 1, loadedTexturesCache = [],
              calls = [CreateHardwareTexture] \<rparr>"
  by (simp add: world1_def InternalTexture_new_def world0_def device0_def Let_def upd_def issue_def)

lemma world2_eq:
  "world2 = \<lparr> heap = (\<lambda>a. declared sampler0 Unknown 0)
                       (0 := (declared sampler0 Raw 0)\<lparr>hardwareTexture := Some 0\<rparr>,
                        1 := (declared sampler0 Raw 1)\<lparr>hardwareTexture := Some 1\<rparr>),
              allocated = Suc (Suc 0), Counter = 2, loadedTexturesCache = [0, 1],
              calls = [CreateHardwareTexture, CreateHardwareTexture] \<rparr>"
  by (simp add: world2_def world1_eq InternalTexture_new_def device0_def Let_def upd_def issue_def)

lemma world2_facts:
  "hardwareTexture (heap world2 0) = Some 0"
  "hardwareTexture (heap world2 (Suc 0)) = Some (Suc 0)"
  "allocated world2 = Suc (Suc 0)"
  "loadedTexturesCache world2 = [0, Suc 0]"
  by (simp_all add: world2_eq declared_def)

lemma worldT_facts:
  "isReady (heap worldT 0)"
  "source (heap worldT 0) = Temp"
  "onRebuildCallback (heap worldT 0) = None"
  "calls worldT = [CreateHardwareTexture]"
  by (simp_all add: worldT_def InternalTexture_new_def world0_def device0_def Let_def upd_def
        issue_def declared_def)

lemma worldP_facts:
  "sphericalPolynomial (heap worldP 0) = Some 7"
  "source (heap worldP 0) = CubePrefiltered"
  "onRebuildCallback (heap worldP 0) = None"
  by (simp_all add: worldP_def InternalTexture_new_def world0_def device0_def Let_def upd_def
        issue_def declared_def)

lemma worldR_facts:
  "isRGBD (heap worldR (Suc 0))"
  "\<not> isRGBD (heap worldR 0)"
  by (simp_all add: worldR_def world2_eq upd_def declared_def)

lemma worldC_facts:
  "isReady (heap worldC 0)"
  "onRebuildCallback (heap worldC 0) = Some 0"
  by (simp_all add: worldC_def world2_eq upd_def declared_def)


lemma set_owners:
  "set (owners w h) = {a. a < allocated w \<and> hardwareTexture (heap w a) = Some h}"
  by (auto simp: owners_def)

lemma rebuild_custom_sync_isReady:
  assumes "onRebuildCallback (heap w this) = Some cb"
      and "data_proxy (rebuildData dev (rebuild_reset w this) cb this) = Some (ProxyTexture p)"
      and "\<not> data_isAsync (rebuildData dev (rebuild_reset w this) cb this)"
  shows "isReady (heap (fst (rebuild dev w this)) this)
           = data_isReady (rebuildData dev (rebuild_reset w this) cb this)"
  using assms by (simp add: rebuild_def Let_def heap_rebuild_reset)

lemma rebuild_Raw_hardwareTexture:
  assumes "onRebuildCallback (heap w this) = None"
      and "source (heap w this) = Raw"
      and "created dev = (\<lambda>v c. prox)"
  shows "hardwareTexture (heap (fst (rebuild dev w this)) a) =
           (if a = this then hardwareTexture (heap w prox) else hardwareTexture (heap w a))"
  using assms
  by (simp add: rebuild_def Let_def heap_rebuild_reset swapAndDie_hardwareTexture)

section \<open>Ownership of the hardware handle\<close>

text \<open>
  Claim C3, as stated, fails. \<open>_swapAndDie\<close> assigns \<open>target._hardwareTexture\<close> and
  never clears \<open>this._hardwareTexture\<close>. In \<open>world2\<close> the handle \<open>1\<close> is referenced by
  descriptor \<open>1\<close> alone; after \<open>_swapAndDie\<close> from \<open>1\<close> into \<open>0\<close> both descriptors
  reference it. The same state is reached by \<open>_rebuild()\<close> of the \<open>Raw\<close> descriptor
  \<open>0\<close> when the engine returns descriptor \<open>1\<close> as the replacement.
\<close>

theorem swapAndDie_source_keeps_handle_counterexample:
  "owners world2 1 = [1]
   \<and> hardwareTexture (heap (swapAndDie world2 1 0 True) 1) = Some 1
   \<and> hardwareTexture (heap (swapAndDie world2 1 0 True) 0) = Some 1
   \<and> owners (swapAndDie world2 1 0 True) 1 = [0, 1]
   \<and> hardwareTexture (heap (fst (rebuild device0 world2 0)) 1) = Some 1
   \<and> hardwareTexture (heap (fst (rebuild device0 world2 0)) 0) = Some 1"
proof -
  have c: "created device0 = (\<lambda>v c. Suc 0)" by (simp add: device0_def)
  have r: "onRebuildCallback (heap world2 0) = None" "source (heap world2 0) = Raw"
    by (simp_all add: world2_eq declared_def)
  show ?thesis
    by (simp add: owners_def world2_facts swapAndDie_hardwareTexture
          rebuild_Raw_hardwareTexture [OF r c])
qed

text \<open>
  Claim C3, amended. After \<open>this._swapAndDie(target)\<close> the target's
  \<open>_hardwareTexture\<close> is the handle that \<open>this\<close> held, the \<open>_hardwareTexture\<close> field of
  \<open>this\<close> is unchanged (the retired source keeps its reference), and no other
  descriptor's field is written. Hence a handle referenced by the source alone before
  the transfer is referenced by exactly two descriptors after it: the retired source
  and the target.
\<close>

theorem swapAndDie_handle_shared:
  "hardwareTexture (heap (swapAndDie w s t b) t) = hardwareTexture (heap w s)
   \<and> hardwareTexture (heap (swapAndDie w s t b) s) = hardwareTexture (heap w s)
   \<and> (\<forall>a. a \<noteq> t \<longrightarrow>
         hardwareTexture (heap (swapAndDie w s t b) a) = hardwareTexture (heap w a))
   \<and> (owners w h = [s] \<and> t < allocated w \<longrightarrow>
         set (owners (swapAndDie w s t b) h) = {s, t})"
proof (intro conjI allI impI)
  assume a: "owners w h = [s] \<and> t < allocated w"
  then have "set (owners w h) = {s}" by simp
  then have o: "{a. a < allocated w \<and> hardwareTexture (heap w a) = Some h} = {s}"
    by (simp add: set_owners)
  then have s: "s < allocated w" "hardwareTexture (heap w s) = Some h" by blast+
  have "{a. a < allocated w \<and> hardwareTexture (heap (swapAndDie w s t b) a) = Some h}
          = insert t {a. a < allocated w \<and> hardwareTexture (heap w a) = Some h}"
    using a s by (auto simp: swapAndDie_hardwareTexture)
  then show "set (owners (swapAndDie w s t b) h) = {s, t}"
    using o by (auto simp: set_owners)
qed (simp_all add: swapAndDie_hardwareTexture)

theorem swapAndDie_handle_shared_witness:
  "set (owners (swapAndDie world2 1 0 True) 1) = {1, 0}"
proof -
  have "owners world2 1 = [1] \<and> 0 < allocated world2"
    by (simp add: owners_def world2_facts)
  with swapAndDie_handle_shared [of world2 1 0 True 1] show ?thesis by blast
qed

section \<open>Rebuild of the kinds that are not recreated\<close>

text \<open>
  Claim C4, as stated, fails. \<open>_rebuild()\<close> clears the ready flag and the cached
  sampler values before it looks at the source kind: a ready \<open>Temp\<close> descriptor is not
  ready after \<open>_rebuild()\<close>.
\<close>

theorem rebuild_Temp_clears_isReady_counterexample:
  "source (heap worldT 0) = Temp \<and> onRebuildCallback (heap worldT 0) = None
   \<and> isReady (heap worldT 0) \<and> \<not> isReady (heap (fst (rebuild device0 worldT 0)) 0)"
  by (simp add: worldT_facts rebuild_without_recreation heap_rebuild_reset)

text \<open>
  Claim C4, amended. For every descriptor whose source kind is \<open>Temp\<close>,
  \<open>CubeRawRGBD\<close>, \<open>Unknown\<close> or any other kind without a branch in \<open>_rebuild\<close>
  (\<open>RenderTarget\<close>, \<open>MultiRenderTarget\<close>, \<open>DepthStencil\<close>, \<open>Depth\<close>), and with no custom
  rebuild callback registered, \<open>_rebuild()\<close> issues no call at all and performs no
  transfer; all it does is set \<open>isReady\<close> to \<open>false\<close> and the five cached sampler values
  of the descriptor to \<open>null\<close>. Everything else, in the descriptor and outside it, is
  unchanged.
\<close>

theorem rebuild_without_recreation_resets:
  assumes "onRebuildCallback (heap w this) = None"
      and "source (heap w this)
             \<in> {Temp, CubeRawRGBD, Unknown, RenderTarget, MultiRenderTarget, DepthStencil, Depth}"
  shows "rebuild dev w this =
           (w\<lparr>heap := (heap w)(this := (heap w this)\<lparr>isReady := False,
                 cachedCoordinatesMode := None, cachedWrapU := None, cachedWrapV := None,
                 cachedWrapR := None, cachedAnisotropicFilteringLevel := None\<rparr>)\<rparr>, Done)
       \<and> calls (fst (rebuild dev w this)) = calls w
       \<and> loadedTexturesCache (fst (rebuild dev w this)) = loadedTexturesCache w
       \<and> (\<forall>a. a \<noteq> this \<longrightarrow> heap (fst (rebuild dev w this)) a = heap w a)"
  by (simp add: rebuild_without_recreation [OF assms] rebuild_reset_eq)

theorem rebuild_without_recreation_resets_witness:
  "calls (fst (rebuild device0 worldT 0)) = [CreateHardwareTexture]
   \<and> snd (rebuild device0 worldT 0) = Done"
  using rebuild_without_recreation_resets [of worldT 0 device0] by (simp add: worldT_facts)

section \<open>The cache after a repeated transfer\<close>

text \<open>
  Claim C5. Assume that each descriptor occurs at most once in the loaded-textures
  cache. After two transfers into the same target \<open>t\<close>, from sources \<open>s1\<close> and \<open>s2\<close>
  other than the target (the same source twice, or two sources), the cache contains
  the target exactly once and contains neither source; and repeating the transfer from
  the same source leaves the cache as the first transfer left it.
\<close>

theorem swapAndDie_cache_idempotent:
  assumes d: "distinct (loadedTexturesCache w)"
      and s1: "s1 \<noteq> t" and s2: "s2 \<noteq> t"
  shows "count_list (loadedTexturesCache (swapAndDie (swapAndDie w s1 t b1) s2 t b2)) t = 1
       \<and> s1 \<notin> set (loadedTexturesCache (swapAndDie (swapAndDie w s1 t b1) s2 t b2))
       \<and> s2 \<notin> set (loadedTexturesCache (swapAndDie (swapAndDie w s1 t b1) s2 t b2))
       \<and> loadedTexturesCache (swapAndDie (swapAndDie w s1 t b1) s1 t b2)
           = loadedTexturesCache (swapAndDie w s1 t b1)"
proof -
  let ?c1 = "loadedTexturesCache (swapAndDie w s1 t b1)"
  have d1: "distinct ?c1" using d s1 by (auto simp: cache_swapAndDie)
  have t1: "t \<in> set ?c1" by (simp add: cache_swapAndDie)
  have n1: "s1 \<notin> set ?c1" using d s1 by (auto simp: cache_swapAndDie)
  have c2: "loadedTexturesCache (swapAndDie (swapAndDie w s1 t b1) s2 t b2) = remove1 s2 ?c1"
    using t1 s2 by (subst cache_swapAndDie) simp
  have c2': "loadedTexturesCache (swapAndDie (swapAndDie w s1 t b1) s1 t b2) = ?c1"
    using t1 s1 n1 by (subst cache_swapAndDie) (simp add: remove1_idem)
  have d2: "distinct (remove1 s2 ?c1)" using d1 by simp
  have t2: "t \<in> set (remove1 s2 ?c1)" using t1 s2 by simp
  have "count_list (remove1 s2 ?c1) t = 1"
    using d2 t2 by (rule distinct_count_list_one)
  moreover have "s1 \<notin> set (remove1 s2 ?c1)" using n1 by (auto dest: notin_set_remove1)
  moreover have "s2 \<notin> set (remove1 s2 ?c1)" using d1 by simp
  ultimately show ?thesis using c2 c2' by simp
qed

theorem swapAndDie_cache_idempotent_witness:
  "count_list (loadedTexturesCache (swapAndDie (swapAndDie world2 1 0 False) 1 0 False)) 0 = 1
   \<and> 1 \<notin> set (loadedTexturesCache (swapAndDie (swapAndDie world2 1 0 False) 1 0 False))"
proof -
  have d: "distinct (loadedTexturesCache world2)" by (simp add: world2_facts)
  have ne: "(1::nat) \<noteq> 0" by simp
  from swapAndDie_cache_idempotent [OF d ne ne, where ?b1.0 = False and ?b2.0 = False]
  show ?thesis by blast
qed

section \<open>What a rebuild preserves\<close>

text \<open>
  Claim C6. \<open>_rebuild()\<close> preserves identity: for every source kind, with or without
  a custom rebuild callback, the \<open>uniqueId\<close> of the descriptor (and of every other
  descriptor) after \<open>_rebuild()\<close> is what it was before; a completion callback that
  \<open>_rebuild()\<close> has left behind preserves it too, in whatever state and with whatever
  argument it runs, and so does the rebuild followed by its callback.
\<close>

theorem rebuild_preserves_uniqueId:
  "uniqueId (heap (fst (rebuild dev w this)) a) = uniqueId (heap w a)
   \<and> uniqueId (heap (fst (run_callback v cb arg)) a) = uniqueId (heap v a)
   \<and> uniqueId (heap (fst (run_callback (fst (rebuild dev w this)) cb arg)) a)
       = uniqueId (heap w a)"
  by (simp add: rebuild_fields run_callback_fields)

theorem rebuild_preserves_uniqueId_witness:
  "uniqueId (heap (fst (rebuild device0 world2 0)) 0) = 0
   \<and> uniqueId (heap (fst (rebuild device0 world2 0)) 1) = 1"
  using rebuild_preserves_uniqueId [of device0 world2 0 0]
        rebuild_preserves_uniqueId [of device0 world2 0 1]
  by (simp add: world2_eq declared_def)

text \<open>
  Claim C9. Every transfer of the rebuild machinery is a \<open>_swapAndDie(this, false)\<close>,
  and a transfer with \<open>swapAll = false\<close> writes no \<open>_isRGBD\<close> flag, while one with
  \<open>swapAll = true\<close> copies the source's flag to the target. So \<open>_rebuild()\<close>, its
  completion callbacks, and the two together leave the \<open>_isRGBD\<close> flag of the
  descriptor (and of every other descriptor) as it was, for every source kind and on
  the custom callback path.
\<close>

theorem rebuild_preserves_isRGBD:
  "isRGBD (heap (fst (rebuild dev w this)) a) = isRGBD (heap w a)
   \<and> isRGBD (heap (fst (run_callback v cb arg)) a) = isRGBD (heap v a)
   \<and> isRGBD (heap (fst (run_callback (fst (rebuild dev w this)) cb arg)) a) = isRGBD (heap w a)
   \<and> isRGBD (heap (swapAndDie v s t False) a) = isRGBD (heap v a)
   \<and> isRGBD (heap (swapAndDie v s t True) t) = isRGBD (heap v s)"
  by (simp add: rebuild_fields run_callback_fields swapAndDie_isRGBD)

theorem rebuild_preserves_isRGBD_witness:
  "\<not> isRGBD (heap (fst (rebuild device0 worldR 0)) 0)
   \<and> isRGBD (heap (swapAndDie worldR 1 0 True) 0)"
  using rebuild_preserves_isRGBD [of device0 worldR 0 0 worldR _ _ 1 0]
  by (simp add: worldR_facts)

text \<open>
  Claim C10. \<open>_swapAndDie\<close> never writes a \<open>_sphericalPolynomial\<close> field, the target's
  included. In a \<open>CubePrefiltered\<close> rebuild (no custom callback) the value of the
  original descriptor is copied onto the descriptor that
  \<open>createPrefilteredCubeTexture\<close> returns as soon as that call has returned: the copy is
  in place in the state in which \<open>_rebuild()\<close> returns, also when the completion
  callback is still pending. The original descriptor's \<open>_sphericalPolynomial\<close> is its
  pre-rebuild value when \<open>_rebuild()\<close> returns and after the completion callback has
  run, whatever the callback is passed.
\<close>

theorem rebuild_prefiltered_sphericalPolynomial:
  assumes "onRebuildCallback (heap w this) = None"
      and "source (heap w this) = CubePrefiltered"
  shows "sphericalPolynomial (heap (swapAndDie v s t b) a) = sphericalPolynomial (heap v a)
       \<and> (let u = rebuild_reset w this;
               c = CreatePrefilteredCubeTexture (url (heap w this))
                     (lodGenerationScale (heap w this)) (lodGenerationOffset (heap w this))
                     (format (heap w this)) (extension (heap w this));
               prox = created dev u c;
               r = rebuild dev w this
           in sphericalPolynomial (heap (fst r) prox) = sphericalPolynomial (heap w this)
            \<and> sphericalPolynomial (heap (fst r) this) = sphericalPolynomial (heap w this)
            \<and> (completion dev u c = Deferred \<longrightarrow> snd r = Pending (PrefilteredLoaded this))
            \<and> sphericalPolynomial
                 (heap (fst (run_callback (fst r) (PrefilteredLoaded this) arg)) this)
                 = sphericalPolynomial (heap w this))"
proof -
  let ?u = "rebuild_reset w this"
  let ?c = "CreatePrefilteredCubeTexture (url (heap w this))
              (lodGenerationScale (heap w this)) (lodGenerationOffset (heap w this))
              (format (heap w this)) (extension (heap w this))"
  have p: "sphericalPolynomial (heap (fst (rebuild dev w this)) (created dev ?u ?c))
             = sphericalPolynomial (heap w this)"
    using assms
    by (simp add: rebuild_def Let_def heap_rebuild_reset run_callback_fields
             split: completion.splits)
  have d: "completion dev ?u ?c = Deferred \<Longrightarrow>
             snd (rebuild dev w this) = Pending (PrefilteredLoaded this)"
    using assms by (simp add: rebuild_def Let_def heap_rebuild_reset)
  show ?thesis
    using p d by (simp add: Let_def swapAndDie_fields rebuild_fields run_callback_fields)
qed

theorem rebuild_prefiltered_sphericalPolynomial_witness:
  "sphericalPolynomial (heap (fst (rebuild device0 worldP 0)) 1) = Some 7
   \<and> snd (rebuild device0 worldP 0) = Pending (PrefilteredLoaded 0)
   \<and> sphericalPolynomial
       (heap (fst (run_callback (fst (rebuild device0 worldP 0)) (PrefilteredLoaded 0) (Some 1))) 0)
       = Some 7"
  using rebuild_prefiltered_sphericalPolynomial
          [OF worldP_facts(3) worldP_facts(2), of _ _ _ _ _ device0 "Some 1"]
  by (simp add: Let_def worldP_facts device0_def)

section \<open>Resizing\<close>











section \<open>The reset at the start of a rebuild\<close>

lemma swapAndDie_cleared: "cleared (heap (swapAndDie w s t b) a) = cleared (heap w a)"
  using swapAndDie_frame [of w s t b a] by (auto simp: cleared_def)

lemma cleared_issue: "cleared (heap (issue w c) a) = cleared (heap w a)"
  by simp

lemma run_callback_threw:
  "snd (run_callback w cb arg) = Threw e \<Longrightarrow> fst (run_callback w cb arg) = w"
  by (cases cb; cases arg) simp_all

lemma rebuild_threw_cleared:
  assumes "snd (rebuild dev w this) = Threw e"
  shows "cleared (heap (fst (rebuild dev w this)) this)"
proof -
  have c: "cleared (heap (issue (rebuild_reset w this) x) this)" for x
    by (simp add: cleared_rebuild_reset)
  have r: "snd (run_callback (issue (rebuild_reset w this) x) cb arg) = Threw e \<Longrightarrow>
           cleared (heap (fst (run_callback (issue (rebuild_reset w this) x) cb arg)) this)"
    for x cb arg
    using c [of x] by (simp add: run_callback_threw)
  show ?thesis
    using assms c r
    by (simp add: rebuild_def Let_def
             split: option.splits InternalTextureSource.splits proxy.splits completion.splits
                    if_splits)
qed

lemma cleared_reset:
  "cleared (t\<lparr>isReady := False, cachedCoordinatesMode := None, cachedWrapU := None,
               cachedWrapV := None, cachedWrapR := None,
               cachedAnisotropicFilteringLevel := None\<rparr>)"
  by (simp add: cleared_def)

lemma rebuild_no_transfer_cleared:
  assumes "onRebuildCallback (heap w this) = None"
      and "source (heap w this) \<notin> {Url, Raw, Raw3D, Raw2DArray, CubeRaw, CubePrefiltered}"
  shows "cleared (heap (fst (rebuild dev w this)) this)"
  using assms
  by (cases "source (heap w this)")
     (simp_all add: rebuild_def Let_def heap_rebuild_reset swapAndDie_cleared
         cleared_reset split: completion.splits)

lemma rebuild_reset_forgets:
  "rebuild_reset
     (upd w this (\<lambda>t. t\<lparr>isReady := b, cachedCoordinatesMode := c0, cachedWrapU := c1,
                          cachedWrapV := c2, cachedWrapR := c3,
                          cachedAnisotropicFilteringLevel := c4\<rparr>)) this
     = rebuild_reset w this"
  by (simp add: rebuild_reset_eq upd_def)

lemma rebuild_forgets:
  "rebuild dev
     (upd w this (\<lambda>t. t\<lparr>isReady := b, cachedCoordinatesMode := c0, cachedWrapU := c1,
                          cachedWrapV := c2, cachedWrapR := c3,
                          cachedAnisotropicFilteringLevel := c4\<rparr>)) this
     = rebuild dev w this"
  unfolding rebuild_def rebuild_reset_forgets ..

text \<open>
  Claim C8. For every descriptor, \<open>_rebuild()\<close> sets \<open>isReady\<close> to \<open>false\<close> and the five
  cached sampler values (coordinates mode, wrap U, wrap V, wrap R, anisotropic
  filtering level) to \<open>null\<close> before any recreation is attempted, the custom rebuild
  callback included. Whatever the callback and the engine answer during \<open>_rebuild()\<close>,
  they answer in a state in which the descriptor is cleared, so two engines that answer
  alike in all such states give the same rebuild; and the rebuild is the same whatever
  the ready flag and the five cached values were before it. The five cached values are
  \<open>null\<close> when \<open>_rebuild()\<close> returns. The ready flag is \<open>false\<close> on return unless a
  transfer has completed inside the call: it is \<open>false\<close> while a completion callback is
  pending, when an exception leaves the method, and, without a custom callback, for
  every source kind other than \<open>Url\<close>, \<open>Raw\<close>, \<open>Raw3D\<close>, \<open>Raw2DArray\<close>, \<open>CubeRaw\<close> and
  \<open>CubePrefiltered\<close>; so for \<open>Temp\<close>, \<open>CubeRawRGBD\<close>, \<open>Unknown\<close> and the other kinds
  that are not recreated.
\<close>

theorem rebuild_resets_before_recreation:
  assumes agree: "\<forall>v. cleared (heap v this) \<longrightarrow>
             rebuildData d1 v = rebuildData d2 v \<and> created d1 v = created d2 v
             \<and> completion d1 v = completion d2 v"
  shows "rebuild d1 w this = rebuild d2 w this
       \<and> cachedCoordinatesMode (heap (fst (rebuild d1 w this)) this) = None
       \<and> cachedWrapU (heap (fst (rebuild d1 w this)) this) = None
       \<and> cachedWrapV (heap (fst (rebuild d1 w this)) this) = None
       \<and> cachedWrapR (heap (fst (rebuild d1 w this)) this) = None
       \<and> cachedAnisotropicFilteringLevel (heap (fst (rebuild d1 w this)) this) = None
       \<and> (\<forall>cb. snd (rebuild d1 w this) = Pending cb \<longrightarrow>
             cleared (heap (fst (rebuild d1 w this)) this))
       \<and> (\<forall>e. snd (rebuild d1 w this) = Threw e \<longrightarrow>
             cleared (heap (fst (rebuild d1 w this)) this))
       \<and> (onRebuildCallback (heap w this) = None
           \<and> source (heap w this) \<notin> {Url, Raw, Raw3D, Raw2DArray, CubeRaw, CubePrefiltered}
           \<longrightarrow> \<not> isReady (heap (fst (rebuild d1 w this)) this)
               \<and> cleared (heap (fst (rebuild d1 w this)) this))
       \<and> (\<forall>b c0 c1 c2 c3 c4.
             rebuild d1
               (upd w this (\<lambda>t. t\<lparr>isReady := b, cachedCoordinatesMode := c0,
                                    cachedWrapU := c1, cachedWrapV := c2, cachedWrapR := c3,
                                    cachedAnisotropicFilteringLevel := c4\<rparr>)) this
               = rebuild d1 w this)"
proof -
  from agree cleared_rebuild_reset [of w this]
  have e: "rebuildData d1 (rebuild_reset w this) = rebuildData d2 (rebuild_reset w this)"
          "created d1 (rebuild_reset w this) = created d2 (rebuild_reset w this)"
          "completion d1 (rebuild_reset w this) = completion d2 (rebuild_reset w this)"
    by blast+
  have same: "rebuild d1 w this = rebuild d2 w this"
    unfolding rebuild_def Let_def e ..
  have kinds: "\<not> isReady (heap (fst (rebuild d1 w this)) this)
               \<and> cleared (heap (fst (rebuild d1 w this)) this)"
    if "onRebuildCallback (heap w this) = None
        \<and> source (heap w this) \<notin> {Url, Raw, Raw3D, Raw2DArray, CubeRaw, CubePrefiltered}"
  proof -
    from that have "cleared (heap (fst (rebuild d1 w this)) this)"
      by (intro rebuild_no_transfer_cleared) blast+
    then show ?thesis by (simp add: cleared_def)
  qed
  have caches:
    "cachedCoordinatesMode (heap (fst (rebuild d1 w this)) this) = None
     \<and> cachedWrapU (heap (fst (rebuild d1 w this)) this) = None
     \<and> cachedWrapV (heap (fst (rebuild d1 w this)) this) = None
     \<and> cachedWrapR (heap (fst (rebuild d1 w this)) this) = None
     \<and> cachedAnisotropicFilteringLevel (heap (fst (rebuild d1 w this)) this) = None"
    by (simp add: rebuild_fields)
  from same caches kinds show ?thesis
    using rebuild_pending_cleared [of d1 w this] rebuild_threw_cleared [of d1 w this]
          rebuild_forgets [of d1 w this]
    by blast
qed

text \<open>
  The callback of \<open>deviceA\<close> echoes the ready flag that it finds. Called on the ready
  descriptor \<open>0\<close> of \<open>worldC\<close> outside a rebuild it would report \<open>true\<close>; in
  \<open>_rebuild()\<close> it reports \<open>false\<close>, which is the flag the descriptor is left with, and
  the rebuild is the one \<open>deviceB\<close> gives. The ready \<open>Temp\<close> descriptor of \<open>worldT\<close>,
  for which nothing is asked, is not ready after \<open>_rebuild()\<close> either.
\<close>

theorem rebuild_resets_before_recreation_witness:
  "rebuild deviceA worldC 0 = rebuild deviceB worldC 0
   \<and> isReady (heap worldC 0)
   \<and> data_isReady (rebuildData deviceA worldC 0 0)
   \<and> \<not> data_isReady (rebuildData deviceB worldC 0 0)
   \<and> \<not> isReady (heap (fst (rebuild deviceA worldC 0)) 0)
   \<and> isReady (heap worldT 0)
   \<and> \<not> isReady (heap (fst (rebuild deviceA worldT 0)) 0)"
proof -
  have agree: "\<forall>v. cleared (heap v 0) \<longrightarrow>
             rebuildData deviceA v = rebuildData deviceB v \<and> created deviceA v = created deviceB v
             \<and> completion deviceA v = completion deviceB v"
    by (simp add: deviceA_def deviceB_def cleared_def)
  from rebuild_resets_before_recreation [OF agree, of worldC]
  have e: "rebuild deviceA worldC 0 = rebuild deviceB worldC 0" by blast
  have k: "onRebuildCallback (heap worldT 0) = None
           \<and> source (heap worldT 0) \<notin> {Url, Raw, Raw3D, Raw2DArray, CubeRaw, CubePrefiltered}"
    by (simp add: worldT_facts)
  from rebuild_resets_before_recreation [OF agree, of worldT] k
  have t: "\<not> isReady (heap (fst (rebuild deviceA worldT 0)) 0)" by blast
  have "isReady (heap (fst (rebuild deviceA worldC 0)) 0)
          = data_isReady (rebuildData deviceA (rebuild_reset worldC 0) 0 0)"
    by (rule rebuild_custom_sync_isReady [where p = 1])
       (simp_all add: worldC_facts deviceA_def device0_def)
  then have "\<not> isReady (heap (fst (rebuild deviceA worldC 0)) 0)"
    by (simp add: deviceA_def heap_rebuild_reset)
  with e t show ?thesis
    by (simp add: deviceA_def deviceB_def worldC_facts worldT_facts)
qed

end
